theory Spec2Isabelle
  imports Main "HOL-Library.Char_ord" "HOL-Library.List_Lexorder"
begin

section \<open>Strings and values of the source language\<close>

text \<open>
  A string of the source is a \<^typ>\<open>string\<close>: one \<^typ>\<open>char\<close> per code unit below
  \<open>0x100\<close>. Every literal of the source is ASCII. \<open>String.prototype.trim\<close> removes
  white space and line terminators from both ends; of those, the code units below
  \<open>0x100\<close> are TAB, LF, VT, FF, CR, SPACE and NBSP.
\<close>

definition isWhiteSpace :: "char \<Rightarrow> bool" where
  "isWhiteSpace c =
     (c \<in> set [CHR 0x09, CHR 0x0A, CHR 0x0B, CHR 0x0C, CHR 0x0D, CHR 0x20, CHR 0xA0])"

definition trim :: "string \<Rightarrow> string" where
  "trim s = rev (dropWhile isWhiteSpace (rev (dropWhile isWhiteSpace s)))"

text \<open>
  The values a form field holds: a string, a boolean, a \<open>Date\<close> (its time value),
  \<open>undefined\<close> or \<open>null\<close>.
\<close>

datatype jsval = Str string | Bool bool | DateV int | Undefined | Null

text \<open>
  A plain object literal, as an association list of its own properties. Both
  \<open>key in obj\<close> and \<open>obj[key]\<close> follow the prototype chain, so the properties of
  \<open>Object.prototype\<close> are found in every object literal: \<open>obj[key]\<close> is then a
  function (or \<open>Object.prototype\<close> itself for \<open>__proto__\<close>), never a value of the
  literal.
\<close>

definition objectPrototypeKeys :: "string list" where
  "objectPrototypeKeys =
     [''constructor'', ''hasOwnProperty'', ''isPrototypeOf'', ''propertyIsEnumerable'',
      ''toLocaleString'', ''toString'', ''valueOf'', ''__proto__'',
      ''__defineGetter__'', ''__defineSetter__'', ''__lookupGetter__'', ''__lookupSetter__'']"

datatype 'a property = Own 'a | Inherited | Absent

definition getProp :: "(string \<times> 'a) list \<Rightarrow> string \<Rightarrow> 'a property" where
  "getProp obj k =
     (case map_of obj k of
        Some v \<Rightarrow> Own v
      | None \<Rightarrow> if k \<in> set objectPrototypeKeys then Inherited else Absent)"

definition hasProp :: "string \<Rightarrow> (string \<times> 'a) list \<Rightarrow> bool" where
  "hasProp k obj = (getProp obj k \<noteq> Absent)"

datatype error = TypeError

section \<open>The campaign draft\<close>

text \<open>
  \<open>CampaignFormData\<close>, the type inferred from \<open>campaignFormSchema\<close>. A field the
  schema marks \<open>optional()\<close> is an option (\<open>None\<close> is \<open>undefined\<close>); \<open>startDate\<close> is
  \<open>undefined\<close> until a date is picked, although the schema requires it. The selector of
  the field \<open>tactic\<close> is written with a prime.
\<close>

record CampaignFormData =
  baseUrl :: string
  anchorTag :: "string option"
  campaignType :: string
  campaignSource :: string
  adType :: string
  adTypeDetail :: "string option"
  targeting :: bool
  brand1 :: string
  brand2 :: "string option"
  brand3 :: "string option"
  productCategory :: string
  productBrand :: "string option"
  campaignOwner :: string
  startDate :: "int option"
  endDate :: "int option"
  campaignNotes :: string
  projectReferenceNumber :: string
  budget :: "string option"
  industry :: string
  tactic' :: string
  costCenter :: "string option"
  subLedger :: "string option"
  partnering :: bool
  partnerName :: "string option"
  thirdParty :: bool
  thirdPartyName :: "string option"

text \<open>Truthiness of an optional string: \<open>undefined\<close> and \<open>""\<close> are falsy.\<close>

fun truthy :: "string option \<Rightarrow> bool" where
  "truthy None = False"
| "truthy (Some s) = (s \<noteq> [])"




definition fieldNames :: "string list" where
  "fieldNames =
     [''baseUrl'', ''anchorTag'', ''campaignType'', ''campaignSource'', ''adType'',
      ''adTypeDetail'', ''targeting'', ''brand1'', ''brand2'', ''brand3'',
      ''productCategory'', ''productBrand'', ''campaignOwner'', ''startDate'', ''endDate'',
      ''campaignNotes'', ''projectReferenceNumber'', ''budget'', ''industry'', ''tactic'',
      ''costCenter'', ''subLedger'', ''partnering'', ''partnerName'', ''thirdParty'',
      ''thirdPartyName'']"

section \<open>Completed fields, required fields and the field status\<close>




definition baseRequiredFields :: "string list" where
  "baseRequiredFields =
     [''baseUrl'', ''campaignType'', ''campaignSource'', ''adType'',
      ''brand1'', ''productCategory'', ''campaignOwner'', ''startDate'',
      ''campaignNotes'', ''projectReferenceNumber'', ''industry'', ''tactic'']"

text \<open>\<open>isFieldRequired\<close>; the form state enters through \<open>form.watch('costCenter')\<close> only.\<close>

definition isFieldRequired :: "'a CampaignFormData_scheme \<Rightarrow> string \<Rightarrow> bool" where
  "isFieldRequired formValues fieldName =
     (if fieldName \<in> set baseRequiredFields then True
      else if fieldName = ''subLedger'' then truthy (costCenter formValues)
      else False)"

datatype fieldStatus = StatusError | StatusRequired | StatusCompleted | StatusDefault

text \<open>
  \<open>getFieldStatus\<close>. \<open>errors\<close> is \<open>form.formState.errors\<close>, a plain object from field
  name to message, read with \<open>errors[fieldName]\<close>; \<open>completed\<close> is the state variable
  \<open>completedFields\<close>.
\<close>

definition getFieldStatus ::
  "(string \<times> string) list \<Rightarrow> string set \<Rightarrow> 'a CampaignFormData_scheme \<Rightarrow> string \<Rightarrow> fieldStatus"
where
  "getFieldStatus errors completed formValues fieldName =
     (let hasError = hasProp fieldName errors;
          isCompleted = (fieldName \<in> completed);
          isRequired = isFieldRequired formValues fieldName
      in if hasError then StatusError
         else if isRequired \<and> \<not> isCompleted then StatusRequired
         else if isCompleted then StatusCompleted
         else StatusDefault)"

section \<open>The hierarchy table and the dependent-field resolvers\<close>

record typeData =
  sources :: "string list"
  adTypes :: "(string \<times> string list) list"
  adTypeDetails :: "(string \<times> string list) list"

definition campaignHierarchy :: "(string \<times> typeData) list" where
  "campaignHierarchy =
     [(''Display Ads'',
        \<lparr>sources = [''Google'', ''Facebook'', ''LinkedIn''],
         adTypes =
           [(''Google'', [''Banner'', ''Video'']),
            (''Facebook'', [''Image'', ''Video'', ''Carousel'']),
            (''LinkedIn'', [''Banner'', ''Text''])],
         adTypeDetails =
           [(''Banner'', [''Standard Banner'', ''Rich Media'']),
            (''Video'', [''Interstitial'', ''Native'']),
            (''Image'', [''Standard Banner'', ''Native'']),
            (''Carousel'', [''Rich Media'', ''Native'']),
            (''Text'', [''Standard Banner''])]\<rparr>),
      (''Email Campaign'',
        \<lparr>sources = [''Email Newsletter'', ''Organic Social''],
         adTypes =
           [(''Email Newsletter'', [''Text'', ''Image'']),
            (''Organic Social'', [''Text'', ''Image'', ''Video''])],
         adTypeDetails =
           [(''Text'', [''Standard Banner'']),
            (''Image'', [''Standard Banner'', ''Rich Media'']),
            (''Video'', [''Native'', ''Interstitial''])]\<rparr>),
      (''Google Ads'',
        \<lparr>sources = [''Google'', ''Paid Social''],
         adTypes =
           [(''Google'', [''Banner'', ''Video'', ''Text'']),
            (''Paid Social'', [''Image'', ''Video'', ''Carousel''])],
         adTypeDetails =
           [(''Banner'', [''Standard Banner'', ''Rich Media'', ''Expandable'']),
            (''Video'', [''Interstitial'', ''Native'']),
            (''Text'', [''Standard Banner'']),
            (''Image'', [''Standard Banner'', ''Rich Media'']),
            (''Carousel'', [''Rich Media'', ''Native''])]\<rparr>),
      (''Social Media'',
        \<lparr>sources = [''Facebook'', ''LinkedIn'', ''Organic Social'', ''Paid Social''],
         adTypes =
           [(''Facebook'', [''Image'', ''Video'', ''Carousel'', ''Story'']),
            (''LinkedIn'', [''Banner'', ''Text'', ''Image'']),
            (''Organic Social'', [''Text'', ''Image'', ''Video'']),
            (''Paid Social'', [''Image'', ''Video'', ''Carousel''])],
         adTypeDetails =
           [(''Image'', [''Standard Banner'', ''Rich Media'', ''Native'']),
            (''Video'', [''Interstitial'', ''Native'']),
            (''Carousel'', [''Rich Media'', ''Native'']),
            (''Story'', [''Native'']),
            (''Banner'', [''Standard Banner'', ''Rich Media'']),
            (''Text'', [''Standard Banner''])]\<rparr>),
      (''Video Campaign'',
        \<lparr>sources = [''Google'', ''Facebook'', ''Paid Social''],
         adTypes =
           [(''Google'', [''Video'']),
            (''Facebook'', [''Video'', ''Story'']),
            (''Paid Social'', [''Video'', ''Carousel''])],
         adTypeDetails =
           [(''Video'', [''Interstitial'', ''Native'', ''Rich Media'']),
            (''Story'', [''Native'']),
            (''Carousel'', [''Rich Media'', ''Native''])]\<rparr>)]"

definition costCenterSubLedgers :: "(string \<times> string list) list" where
  "costCenterSubLedgers =
     [(''Engineering'', [''Engineering Projects'', ''Engineering Operations'', ''Engineering R&D'']),
      (''Marketing'', [''Marketing Campaigns'', ''Marketing Events'', ''Marketing Content'']),
      (''Operations'',
         [''Operations Support'', ''Operations Infrastructure'', ''Operations Maintenance'']),
      (''Product'', [''Product Development'', ''Product Support'', ''Product Research'']),
      (''Sales'', [''Sales Activities'', ''Sales Support'', ''Sales Training''])]"

text \<open>\<open>mockData.campaignTypes\<close> and \<open>mockData.costCenters\<close>: the sorted own keys.\<close>

definition campaignTypes :: "string list" where
  "campaignTypes = sort (map fst campaignHierarchy)"

definition costCenters :: "string list" where
  "costCenters = sort (map fst costCenterSubLedgers)"

text \<open>
  The four memoised resolvers. Each guards with \<open>!(key in table)\<close> and then reads
  \<open>table[key]\<close>. For an inherited key the guard lets the lookup through: reading
  \<open>.sources\<close>, \<open>.adTypes\<close> or \<open>.adTypeDetails\<close> of the inherited value gives
  \<open>undefined\<close>, and both \<open>[...undefined]\<close> and \<open>key in undefined\<close> throw a
  \<open>TypeError\<close>, as does spreading an inherited function. \<open>[...xs].sort()\<close> orders
  strings by code units.
\<close>

definition filteredCampaignSources :: "string \<Rightarrow> error + string list" where
  "filteredCampaignSources campaignType' =
     (if campaignType' = [] \<or> \<not> hasProp campaignType' campaignHierarchy then Inr []
      else case getProp campaignHierarchy campaignType' of
             Own typeData \<Rightarrow> Inr (sort (sources typeData))
           | _ \<Rightarrow> Inl TypeError)"

definition filteredAdTypes :: "string \<Rightarrow> string \<Rightarrow> error + string list" where
  "filteredAdTypes campaignType' campaignSource' =
     (if campaignType' = [] \<or> campaignSource' = [] \<or> \<not> hasProp campaignType' campaignHierarchy
      then Inr []
      else case getProp campaignHierarchy campaignType' of
             Own typeData \<Rightarrow>
               (if \<not> hasProp campaignSource' (adTypes typeData) then Inr []
                else case getProp (adTypes typeData) campaignSource' of
                       Own adTypes' \<Rightarrow> Inr (sort adTypes')
                     | _ \<Rightarrow> Inl TypeError)
           | _ \<Rightarrow> Inl TypeError)"

definition filteredAdTypeDetails :: "string \<Rightarrow> string \<Rightarrow> error + string list" where
  "filteredAdTypeDetails campaignType' adType' =
     (if campaignType' = [] \<or> adType' = [] \<or> \<not> hasProp campaignType' campaignHierarchy
      then Inr []
      else case getProp campaignHierarchy campaignType' of
             Own typeData \<Rightarrow>
               (if \<not> hasProp adType' (adTypeDetails typeData) then Inr []
                else case getProp (adTypeDetails typeData) adType' of
                       Own details \<Rightarrow> Inr (sort details)
                     | _ \<Rightarrow> Inl TypeError)
           | _ \<Rightarrow> Inl TypeError)"

definition filteredSubLedgers :: "string option \<Rightarrow> error + string list" where
  "filteredSubLedgers costCenter' =
     (case costCenter' of
        None \<Rightarrow> Inr []
      | Some c \<Rightarrow>
          (if c = [] \<or> \<not> hasProp c costCenterSubLedgers then Inr []
           else (case getProp costCenterSubLedgers c of
                   Own subLedgers \<Rightarrow> Inr (sort subLedgers)
                 | _ \<Rightarrow> Inl TypeError)))"

text \<open>The options a dropdown shows: none when its resolver throws.\<close>

fun options :: "error + string list \<Rightarrow> string set" where
  "options (Inr xs) = set xs"
| "options (Inl e) = {}"

section \<open>The form state and the cascading resets\<close>

text \<open>
  The form values together with the four \<open>useRef\<close> cells; a cell holds \<open>None\<close>
  while it is \<open>null\<close>.
\<close>

record form = CampaignFormData +
  prevCampaignType :: "string option"
  prevCampaignSource :: "string option"
  prevAdType :: "string option"
  prevCostCenter :: "string option"

text \<open>\<open>costCenter || null\<close>\<close>

definition orNull :: "string option \<Rightarrow> string option" where
  "orNull c = (if truthy c then c else None)"

text \<open>
  The four effects. Each closes over the value its render watched, which is passed
  here as the first argument; \<open>form.setValue(child, '')\<close> writes the form values.
\<close>

definition effectCampaignType :: "string \<Rightarrow> form \<Rightarrow> form" where
  "effectCampaignType campaignType' f =
     (let f' = (if prevCampaignType f \<noteq> None \<and> prevCampaignType f \<noteq> Some campaignType'
                then f\<lparr>campaignSource := [], adType := [], adTypeDetail := Some []\<rparr>
                else f)
      in f'\<lparr>prevCampaignType := Some campaignType'\<rparr>)"

definition effectCampaignSource :: "string \<Rightarrow> form \<Rightarrow> form" where
  "effectCampaignSource campaignSource' f =
     (let f' = (if prevCampaignSource f \<noteq> None \<and> prevCampaignSource f \<noteq> Some campaignSource'
                then f\<lparr>adType := [], adTypeDetail := Some []\<rparr>
                else f)
      in f'\<lparr>prevCampaignSource := Some campaignSource'\<rparr>)"

definition effectAdType :: "string \<Rightarrow> form \<Rightarrow> form" where
  "effectAdType adType' f =
     (let f' = (if prevAdType f \<noteq> None \<and> prevAdType f \<noteq> Some adType'
                then f\<lparr>adTypeDetail := Some []\<rparr>
                else f)
      in f'\<lparr>prevAdType := Some adType'\<rparr>)"

definition effectCostCenter :: "string option \<Rightarrow> form \<Rightarrow> form" where
  "effectCostCenter costCenter' f =
     (let f' = (if prevCostCenter f \<noteq> None \<and> prevCostCenter f \<noteq> orNull costCenter'
                then f\<lparr>subLedger := Some []\<rparr>
                else f)
      in f'\<lparr>prevCostCenter := orNull costCenter'\<rparr>)"

text \<open>
  One render and its effects, in the order of the source, all four on the values that
  render watched. React skips an effect whose dependency is unchanged since the last
  render; such an effect finds its cell equal to the watched value and would only
  rewrite the cell with the same value, so running it changes nothing.
\<close>

definition commit :: "form \<Rightarrow> form" where
  "commit f =
     effectCostCenter (costCenter f)
       (effectAdType (adType f)
         (effectCampaignSource (campaignSource f)
           (effectCampaignType (campaignType f) f)))"

text \<open>
  The fields the effects write. A write that changes a value renders the form again;
  the form is at rest once a render's effects change no value.
\<close>

definition children :: "form \<Rightarrow> string \<times> string \<times> string option \<times> string option" where
  "children f = (campaignSource f, adType f, adTypeDetail f, subLedger f)"

definition filledChildren :: "form \<Rightarrow> nat" where
  "filledChildren f =
     (if campaignSource f = [] then 0 else 1) + (if adType f = [] then 0 else 1) +
     (if adTypeDetail f = Some [] then 0 else 1) + (if subLedger f = Some [] then 0 else 1)"

text \<open>Whether an effect of the next render resets its children.\<close>

definition firesCampaignType :: "form \<Rightarrow> bool" where
  "firesCampaignType f =
     (prevCampaignType f \<noteq> None \<and> prevCampaignType f \<noteq> Some (campaignType f))"

definition firesCampaignSource :: "form \<Rightarrow> bool" where
  "firesCampaignSource f =
     (prevCampaignSource f \<noteq> None \<and> prevCampaignSource f \<noteq> Some (campaignSource f))"

definition firesAdType :: "form \<Rightarrow> bool" where
  "firesAdType f = (prevAdType f \<noteq> None \<and> prevAdType f \<noteq> Some (adType f))"

definition firesCostCenter :: "form \<Rightarrow> bool" where
  "firesCostCenter f =
     (prevCostCenter f \<noteq> None \<and> prevCostCenter f \<noteq> orNull (costCenter f))"

text \<open>
  What an effect and a render leave in each field the resets read or write; with
  these, each render that changes a value is seen to empty a child that was filled.
\<close>

lemma effectCampaignType_sel:
  "campaignType (effectCampaignType v f) = campaignType f"
  "campaignSource (effectCampaignType v f) =
     (if prevCampaignType f \<noteq> None \<and> prevCampaignType f \<noteq> Some v then []
      else campaignSource f)"
  "adType (effectCampaignType v f) =
     (if prevCampaignType f \<noteq> None \<and> prevCampaignType f \<noteq> Some v then [] else adType f)"
  "adTypeDetail (effectCampaignType v f) =
     (if prevCampaignType f \<noteq> None \<and> prevCampaignType f \<noteq> Some v then Some []
      else adTypeDetail f)"
  "costCenter (effectCampaignType v f) = costCenter f"
  "subLedger (effectCampaignType v f) = subLedger f"
  "prevCampaignType (effectCampaignType v f) = Some v"
  "prevCampaignSource (effectCampaignType v f) = prevCampaignSource f"
  "prevAdType (effectCampaignType v f) = prevAdType f"
  "prevCostCenter (effectCampaignType v f) = prevCostCenter f"
  by (simp_all add: effectCampaignType_def Let_def)

lemma effectCampaignSource_sel:
  "campaignType (effectCampaignSource v f) = campaignType f"
  "campaignSource (effectCampaignSource v f) = campaignSource f"
  "adType (effectCampaignSource v f) =
     (if prevCampaignSource f \<noteq> None \<and> prevCampaignSource f \<noteq> Some v then []
      else adType f)"
  "adTypeDetail (effectCampaignSource v f) =
     (if prevCampaignSource f \<noteq> None \<and> prevCampaignSource f \<noteq> Some v then Some []
      else adTypeDetail f)"
  "costCenter (effectCampaignSource v f) = costCenter f"
  "subLedger (effectCampaignSource v f) = subLedger f"
  "prevCampaignType (effectCampaignSource v f) = prevCampaignType f"
  "prevCampaignSource (effectCampaignSource v f) = Some v"
  "prevAdType (effectCampaignSource v f) = prevAdType f"
  "prevCostCenter (effectCampaignSource v f) = prevCostCenter f"
  by (simp_all add: effectCampaignSource_def Let_def)

lemma effectAdType_sel:
  "campaignType (effectAdType v f) = campaignType f"
  "campaignSource (effectAdType v f) = campaignSource f"
  "adType (effectAdType v f) = adType f"
  "adTypeDetail (effectAdType v f) =
     (if prevAdType f \<noteq> None \<and> prevAdType f \<noteq> Some v then Some [] else adTypeDetail f)"
  "costCenter (effectAdType v f) = costCenter f"
  "subLedger (effectAdType v f) = subLedger f"
  "prevCampaignType (effectAdType v f) = prevCampaignType f"
  "prevCampaignSource (effectAdType v f) = prevCampaignSource f"
  "prevAdType (effectAdType v f) = Some v"
  "prevCostCenter (effectAdType v f) = prevCostCenter f"
  by (simp_all add: effectAdType_def Let_def)

lemma effectCostCenter_sel:
  "campaignType (effectCostCenter v f) = campaignType f"
  "campaignSource (effectCostCenter v f) = campaignSource f"
  "adType (effectCostCenter v f) = adType f"
  "adTypeDetail (effectCostCenter v f) = adTypeDetail f"
  "costCenter (effectCostCenter v f) = costCenter f"
  "subLedger (effectCostCenter v f) =
     (if prevCostCenter f \<noteq> None \<and> prevCostCenter f \<noteq> orNull v then Some []
      else subLedger f)"
  "prevCampaignType (effectCostCenter v f) = prevCampaignType f"
  "prevCampaignSource (effectCostCenter v f) = prevCampaignSource f"
  "prevAdType (effectCostCenter v f) = prevAdType f"
  "prevCostCenter (effectCostCenter v f) = orNull v"
  by (simp_all add: effectCostCenter_def Let_def)

lemmas effect_sel =
  effectCampaignType_sel effectCampaignSource_sel effectAdType_sel effectCostCenter_sel

lemma commit_sel:
  "campaignType (commit f) = campaignType f"
  "costCenter (commit f) = costCenter f"
  "campaignSource (commit f) = (if firesCampaignType f then [] else campaignSource f)"
  "adType (commit f) = (if firesCampaignType f \<or> firesCampaignSource f then [] else adType f)"
  "adTypeDetail (commit f) =
     (if firesCampaignType f \<or> firesCampaignSource f \<or> firesAdType f then Some []
      else adTypeDetail f)"
  "subLedger (commit f) = (if firesCostCenter f then Some [] else subLedger f)"
  "prevCampaignType (commit f) = Some (campaignType f)"
  "prevCampaignSource (commit f) = Some (campaignSource f)"
  "prevAdType (commit f) = Some (adType f)"
  "prevCostCenter (commit f) = orNull (costCenter f)"
  by (auto simp: commit_def effect_sel firesCampaignType_def firesCampaignSource_def
        firesAdType_def firesCostCenter_def)

lemma commit_decreases:
  "children (commit f) \<noteq> children f \<Longrightarrow> filledChildren (commit f) < filledChildren f"
  unfolding children_def filledChildren_def commit_sel
  by (cases "firesCampaignType f"; cases "firesCampaignSource f"; cases "firesAdType f";
      cases "firesCostCenter f"; simp; fastforce?)

function settle :: "form \<Rightarrow> form" where
  "settle f = (let f' = commit f in if children f' = children f then f' else settle f')"
  by pat_completeness auto
termination
  by (relation "measure filledChildren") (simp_all add: commit_decreases)

text \<open>
  The render loop: it ends with the first render whose effects change no value. Each
  earlier render empties a filled child, so there are at most four of them.
\<close>

declare settle.simps [simp del]

text \<open>
  Mounting the form on its default values: the cells are \<open>null\<close> and the effects run
  for the first time.
\<close>

definition mount :: "CampaignFormData \<Rightarrow> form" where
  "mount defaultValues =
     settle (CampaignFormData.extend defaultValues
       \<lparr>prevCampaignType = None, prevCampaignSource = None, prevAdType = None,
        prevCostCenter = None\<rparr>)"

text \<open>
  A committed change of one of the six dependent dropdowns: \<open>onValueChange\<close> calls
  \<open>form.setValue\<close> and the form renders until it is at rest.
\<close>

datatype event =
    SetCampaignType string
  | SetCampaignSource string
  | SetAdType string
  | SetAdTypeDetail string
  | SetCostCenter string
  | SetSubLedger string

fun setValue :: "event \<Rightarrow> form \<Rightarrow> form" where
  "setValue (SetCampaignType v) f = f\<lparr>campaignType := v\<rparr>"
| "setValue (SetCampaignSource v) f = f\<lparr>campaignSource := v\<rparr>"
| "setValue (SetAdType v) f = f\<lparr>adType := v\<rparr>"
| "setValue (SetAdTypeDetail v) f = f\<lparr>adTypeDetail := Some v\<rparr>"
| "setValue (SetCostCenter v) f = f\<lparr>costCenter := Some v\<rparr>"
| "setValue (SetSubLedger v) f = f\<lparr>subLedger := Some v\<rparr>"

definition change :: "event \<Rightarrow> form \<Rightarrow> form" where
  "change e f = settle (setValue e f)"

fun changes :: "event list \<Rightarrow> form \<Rightarrow> form" where
  "changes [] f = f"
| "changes (e # es) f = changes es (change e f)"

text \<open>The items each \<open>Select\<close> renders: a change can only pick one of them.\<close>

fun offered :: "form \<Rightarrow> event \<Rightarrow> bool" where
  "offered f (SetCampaignType v) = (v \<in> set campaignTypes)"
| "offered f (SetCampaignSource v) = (v \<in> options (filteredCampaignSources (campaignType f)))"
| "offered f (SetAdType v) =
     (v \<in> options (filteredAdTypes (campaignType f) (campaignSource f)))"
| "offered f (SetAdTypeDetail v) =
     (v \<in> options (filteredAdTypeDetails (campaignType f) (adType f)))"
| "offered f (SetCostCenter v) = (v \<in> set costCenters)"
| "offered f (SetSubLedger v) = (v \<in> options (filteredSubLedgers (costCenter f)))"

fun allOffered :: "event list \<Rightarrow> form \<Rightarrow> bool" where
  "allOffered [] f = True"
| "allOffered (e # es) f = (offered f e \<and> allOffered es (change e f))"

text \<open>
  The form is at rest when every cell holds what its effect would write: the watched
  value, and for the cost center \<open>null\<close> in place of an empty one.
\<close>

definition atRest :: "form \<Rightarrow> bool" where
  "atRest f =
     (prevCampaignType f = Some (campaignType f) \<and>
      prevCampaignSource f = Some (campaignSource f) \<and>
      prevAdType f = Some (adType f) \<and>
      prevCostCenter f = orNull (costCenter f))"

text \<open>The default values when the form is created without \<open>initialData\<close>.\<close>

definition noInitialData :: CampaignFormData where
  "noInitialData =
     \<lparr>baseUrl = [], anchorTag = Some [], campaignType = [], campaignSource = [],
      adType = [], adTypeDetail = Some [], targeting = False, brand1 = [],
      brand2 = Some [], brand3 = Some [], productCategory = [], productBrand = Some [],
      campaignOwner = [], startDate = None, endDate = None, campaignNotes = [],
      projectReferenceNumber = [], budget = Some [], industry = [], tactic' = [],
      costCenter = Some [], subLedger = Some [], partnering = False,
      partnerName = Some [], thirdParty = False, thirdPartyName = Some []\<rparr>"


section \<open>The hierarchy invariant\<close>

text \<open>
  The invariant of the data model, as it is worded: every child is a member of the
  set its parents allow.
\<close>

fun memberOpt :: "string option \<Rightarrow> string set \<Rightarrow> bool" where
  "memberOpt None A = False"
| "memberOpt (Some v) A = (v \<in> A)"

definition hierarchyInvariant :: "'a CampaignFormData_scheme \<Rightarrow> bool" where
  "hierarchyInvariant d =
     (campaignSource d \<in> options (filteredCampaignSources (campaignType d)) \<and>
      adType d \<in> options (filteredAdTypes (campaignType d) (campaignSource d)) \<and>
      memberOpt (adTypeDetail d) (options (filteredAdTypeDetails (campaignType d) (adType d))) \<and>
      memberOpt (subLedger d) (options (filteredSubLedgers (costCenter d))))"

text \<open>The same with an empty or absent child allowed.\<close>

definition emptyOrValid :: "'a CampaignFormData_scheme \<Rightarrow> bool" where
  "emptyOrValid d =
     ((campaignSource d = [] \<or>
         campaignSource d \<in> options (filteredCampaignSources (campaignType d))) \<and>
      (adType d = [] \<or>
         adType d \<in> options (filteredAdTypes (campaignType d) (campaignSource d))) \<and>
      (adTypeDetail d = None \<or> adTypeDetail d = Some [] \<or>
         memberOpt (adTypeDetail d)
           (options (filteredAdTypeDetails (campaignType d) (adType d)))) \<and>
      (subLedger d = None \<or> subLedger d = Some [] \<or>
         memberOpt (subLedger d) (options (filteredSubLedgers (costCenter d)))))"

section \<open>The form schema\<close>

text \<open>
  \<open>campaignFormSchema\<close> gives the issues of a draft as pairs of path and message, in
  the order of the schema. A string shorter than \<open>min(1)\<close> or not a URL leaves the
  parse running; a missing \<open>startDate\<close> is a type error, after which the object is
  invalid and its \<open>refine\<close> is not called. The URL test of the validation library is
  the parameter \<open>isUrl\<close>.
\<close>

type_synonym issue = "string \<times> string"

definition min1 :: "string \<Rightarrow> string \<Rightarrow> string \<Rightarrow> issue list" where
  "min1 path message v = (if length v < 1 then [(path, message)] else [])"

definition objectIssues :: "(string \<Rightarrow> bool) \<Rightarrow> 'a CampaignFormData_scheme \<Rightarrow> issue list" where
  "objectIssues isUrl data =
     (if isUrl (baseUrl data) then [] else [(''baseUrl'', ''Must be a valid URL'')]) @
     min1 ''campaignType'' ''Campaign type is required'' (campaignType data) @
     min1 ''campaignSource'' ''Campaign source is required'' (campaignSource data) @
     min1 ''adType'' ''Ad type is required'' (adType data) @
     min1 ''brand1'' ''Brand 1 is required'' (brand1 data) @
     min1 ''productCategory'' ''Product category is required'' (productCategory data) @
     min1 ''campaignOwner'' ''Campaign owner is required'' (campaignOwner data) @
     (case startDate data of
        None \<Rightarrow> [(''startDate'', ''Start date is required'')]
      | Some t \<Rightarrow> []) @
     min1 ''campaignNotes'' ''Campaign notes are required'' (campaignNotes data) @
     min1 ''projectReferenceNumber'' ''Project reference number is required''
       (projectReferenceNumber data) @
     min1 ''industry'' ''Industry is required'' (industry data) @
     min1 ''tactic'' ''Tactic is required'' (tactic' data)"

text \<open>\<open>x && x.trim() !== ''\<close>\<close>

fun nonBlank :: "string option \<Rightarrow> bool" where
  "nonBlank None = False"
| "nonBlank (Some s) = (s \<noteq> [] \<and> trim s \<noteq> [])"

definition refinement :: "'a CampaignFormData_scheme \<Rightarrow> bool" where
  "refinement data = (if nonBlank (costCenter data) then nonBlank (subLedger data) else True)"

definition campaignFormSchema ::
  "(string \<Rightarrow> bool) \<Rightarrow> 'a CampaignFormData_scheme \<Rightarrow> issue list"
where
  "campaignFormSchema isUrl data =
     objectIssues isUrl data @
     (if startDate data = None \<or> refinement data then []
      else [(''subLedger'', ''Sub Ledger is required when Cost Center is selected'')])"

text \<open>
  \<open>form.handleSubmit(handleSubmit)\<close>: the resolver's issues become the form errors;
  without issues the data goes to \<open>onSubmit\<close>.
\<close>

definition handleSubmit ::
  "(string \<Rightarrow> bool) \<Rightarrow> 'a CampaignFormData_scheme \<Rightarrow> issue list + 'a CampaignFormData_scheme"
where
  "handleSubmit isUrl data =
     (case campaignFormSchema isUrl data of [] \<Rightarrow> Inr data | issues \<Rightarrow> Inl issues)"

section \<open>Partners and third parties\<close>

text \<open>
  The tables \<open>partners\<close> and \<open>third_parties\<close> have the same columns. The database
  fills \<open>id\<close> with \<open>gen_random_uuid()\<close> and both timestamps with \<open>now()\<close>; the two
  values are arguments of the insert. \<open>id\<close> is the primary key and \<open>name\<close> is unique,
  so an insert that repeats either fails.
\<close>

record InsertPartner =
  name :: string
  description :: "string option"

record Partner = InsertPartner +
  rowId :: string
  createdAt :: int
  updatedAt :: int

record db =
  partners :: "Partner list"
  thirdParties :: "Partner list"

datatype dbError = UniqueViolation

definition insertReturning ::
  "string \<Rightarrow> int \<Rightarrow> InsertPartner \<Rightarrow> Partner list \<Rightarrow> dbError + Partner \<times> Partner list"
where
  "insertReturning newId now values table =
     (if name values \<in> set (map name table) \<or> newId \<in> set (map rowId table)
      then Inl UniqueViolation
      else (let created = \<lparr>name = name values, description = description values,
                             rowId = newId, createdAt = now, updatedAt = now\<rparr>
            in Inr (created, table @ [created])))"

definition createPartner :: "string \<Rightarrow> int \<Rightarrow> InsertPartner \<Rightarrow> db \<Rightarrow> dbError + Partner \<times> db" where
  "createPartner newId now partner s =
     (case insertReturning newId now partner (partners s) of
        Inl e \<Rightarrow> Inl e
      | Inr (created, table) \<Rightarrow> Inr (created, s\<lparr>partners := table\<rparr>))"

definition checkPartnerExists :: "db \<Rightarrow> string \<Rightarrow> bool" where
  "checkPartnerExists s n = (filter (\<lambda>r. name r = n) (partners s) \<noteq> [])"

definition createThirdParty :: "string \<Rightarrow> int \<Rightarrow> InsertPartner \<Rightarrow> db \<Rightarrow> dbError + Partner \<times> db" where
  "createThirdParty newId now thirdParty' s =
     (case insertReturning newId now thirdParty' (thirdParties s) of
        Inl e \<Rightarrow> Inl e
      | Inr (created, table) \<Rightarrow> Inr (created, s\<lparr>thirdParties := table\<rparr>))"

definition checkThirdPartyExists :: "db \<Rightarrow> string \<Rightarrow> bool" where
  "checkThirdPartyExists s n = (filter (\<lambda>r. name r = n) (thirdParties s) \<noteq> [])"

text \<open>
  \<open>insertPartnerSchema.parse(req.body)\<close>; the body is the JSON object of the request.
  \<open>name\<close> must be a string, of any length; \<open>description\<close> may be a string, \<open>null\<close> or
  absent.
\<close>

datatype zodError = ZodError

definition insertPartnerSchema :: "(string \<times> jsval) list \<Rightarrow> zodError + InsertPartner" where
  "insertPartnerSchema body =
     (case map_of body ''name'' of
        Some (Str n) \<Rightarrow>
          (case map_of body ''description'' of
             None \<Rightarrow> Inr \<lparr>name = n, description = None\<rparr>
           | Some Undefined \<Rightarrow> Inr \<lparr>name = n, description = None\<rparr>
           | Some Null \<Rightarrow> Inr \<lparr>name = n, description = None\<rparr>
           | Some (Str t) \<Rightarrow> Inr \<lparr>name = n, description = Some t\<rparr>
           | Some other \<Rightarrow> Inl ZodError)
      | other \<Rightarrow> Inl ZodError)"

datatype json = ErrorJson string | PartnerJson Partner

datatype response = Response nat json

text \<open>
  \<open>POST /api/partners\<close> and \<open>POST /api/third-parties\<close>. Both a failed parse and a
  failed insert throw an \<open>Error\<close>, which the handler answers with status 400 and the
  error's message; \<open>message\<close> gives the message of an error.
\<close>

definition postPartners ::
  "string \<Rightarrow> int \<Rightarrow> (zodError + dbError \<Rightarrow> string) \<Rightarrow> (string \<times> jsval) list \<Rightarrow> db \<Rightarrow>
     response \<times> db"
where
  "postPartners newId now message body s =
     (case insertPartnerSchema body of
        Inl e \<Rightarrow> (Response 400 (ErrorJson (message (Inl e))), s)
      | Inr partnerData \<Rightarrow>
          if checkPartnerExists s (name partnerData)
          then (Response 409 (ErrorJson ''Partner name already exists''), s)
          else (case createPartner newId now partnerData s of
                  Inl e \<Rightarrow> (Response 400 (ErrorJson (message (Inr e))), s)
                | Inr (partner, s') \<Rightarrow> (Response 201 (PartnerJson partner), s')))"

definition postThirdParties ::
  "string \<Rightarrow> int \<Rightarrow> (zodError + dbError \<Rightarrow> string) \<Rightarrow> (string \<times> jsval) list \<Rightarrow> db \<Rightarrow>
     response \<times> db"
where
  "postThirdParties newId now message body s =
     (case insertPartnerSchema body of
        Inl e \<Rightarrow> (Response 400 (ErrorJson (message (Inl e))), s)
      | Inr thirdPartyData \<Rightarrow>
          if checkThirdPartyExists s (name thirdPartyData)
          then (Response 409 (ErrorJson ''Third party name already exists''), s)
          else (case createThirdParty newId now thirdPartyData s of
                  Inl e \<Rightarrow> (Response 400 (ErrorJson (message (Inr e))), s)
                | Inr (thirdParty', s') \<Rightarrow> (Response 201 (PartnerJson thirdParty'), s')))"

text \<open>
  The modal's save button. \<open>handleAddPartner\<close> either shows the error toast and
  returns, or starts the mutation, whose \<open>mutationFn\<close> posts the trimmed name. The
  result lists what the user is shown, the requests sent (method, path and body) and
  the database afterwards.
\<close>

datatype shown = Toast string string | Answer response

type_synonym request = "string \<times> string \<times> (string \<times> jsval) list"

definition handleAddPartner ::
  "string \<Rightarrow> int \<Rightarrow> (zodError + dbError \<Rightarrow> string) \<Rightarrow> string \<Rightarrow> db \<Rightarrow>
     shown \<times> request list \<times> db"
where
  "handleAddPartner newId now message newPartnerName s =
     (if trim newPartnerName = [] then (Toast ''Error'' ''Partner name is required'', [], s)
      else (let body = [(''name'', Str (trim newPartnerName))];
                (res, s') = postPartners newId now message body s
            in (Answer res, [(''POST'', ''/api/partners'', body)], s')))"

definition handleAddThirdParty ::
  "string \<Rightarrow> int \<Rightarrow> (zodError + dbError \<Rightarrow> string) \<Rightarrow> string \<Rightarrow> db \<Rightarrow>
     shown \<times> request list \<times> db"
where
  "handleAddThirdParty newId now message newThirdPartyName s =
     (if trim newThirdPartyName = [] then (Toast ''Error'' ''Third party name is required'', [], s)
      else (let body = [(''name'', Str (trim newThirdPartyName))];
                (res, s') = postThirdParties newId now message body s
            in (Answer res, [(''POST'', ''/api/third-parties'', body)], s')))"

text \<open>The full valid draft of the testable properties, its optional fields empty.\<close>

definition validDraft :: CampaignFormData where
  "validDraft =
     \<lparr>baseUrl = ''https://example.com'', anchorTag = Some [],
      campaignType = ''Display Ads'', campaignSource = ''Google'', adType = ''Banner'',
      adTypeDetail = Some ''Standard Banner'', targeting = False, brand1 = ''Brand A'',
      brand2 = Some [], brand3 = Some [], productCategory = ''Hardware'',
      productBrand = Some [], campaignOwner = ''Daniel Konig'', startDate = Some 0,
      endDate = None, campaignNotes = ''launch'', projectReferenceNumber = ''1234567'',
      budget = Some [], industry = ''Technology'', tactic' = ''Awareness'',
      costCenter = Some [], subLedger = Some [], partnering = False,
      partnerName = Some [], thirdParty = False, thirdPartyName = Some []\<rparr>"

section \<open>Required fields\<close>

text \<open>
  Claim C6. For every value of \<open>costCenter\<close>, the empty string and \<open>undefined\<close>
  included, \<open>subLedger\<close> is reported required exactly when \<open>costCenter\<close> is a
  non-empty string. For every other field name the answer is membership in the fixed
  list \<open>baseRequiredFields\<close>, the same in any two form states.
\<close>

theorem subLedger_required_iff_costCenter:
  "(isFieldRequired d ''subLedger'' \<longleftrightarrow> (\<exists>c. costCenter d = Some c \<and> c \<noteq> [])) \<and>
   (fieldName \<noteq> ''subLedger'' \<longrightarrow>
      isFieldRequired d fieldName = (fieldName \<in> set baseRequiredFields) \<and>
      isFieldRequired d fieldName = isFieldRequired d' fieldName)"
proof -
  have "''subLedger'' \<notin> set baseRequiredFields"
    by (simp add: baseRequiredFields_def)
  then have "isFieldRequired d ''subLedger'' = truthy (costCenter d)"
    by (simp add: isFieldRequired_def)
  moreover have "truthy (costCenter d) \<longleftrightarrow> (\<exists>c. costCenter d = Some c \<and> c \<noteq> [])"
    by (cases "costCenter d") simp_all
  ultimately show ?thesis
    by (simp add: isFieldRequired_def)
qed

theorem subLedger_required_witness:
  "isFieldRequired (noInitialData\<lparr>costCenter := Some ''Engineering''\<rparr>) ''subLedger'' \<and>
   \<not> isFieldRequired noInitialData ''subLedger'' \<and>
   isFieldRequired noInitialData ''baseUrl'' \<and>
   isFieldRequired noInitialData ''baseUrl'' = isFieldRequired validDraft ''baseUrl''"
  using subLedger_required_iff_costCenter
      [of "noInitialData\<lparr>costCenter := Some ''Engineering''\<rparr>" "''baseUrl''" noInitialData]
    subLedger_required_iff_costCenter [of noInitialData "''baseUrl''" validDraft]
  by (simp add: noInitialData_def validDraft_def baseRequiredFields_def isFieldRequired_def)

section \<open>The field status\<close>

lemma fieldNames_own: "fieldName \<in> set fieldNames \<Longrightarrow> fieldName \<notin> set objectPrototypeKeys"
  by (auto simp: fieldNames_def objectPrototypeKeys_def)

lemma hasProp_field:
  "fieldName \<in> set fieldNames \<Longrightarrow> hasProp fieldName errors = (map_of errors fieldName \<noteq> None)"
  by (auto simp: hasProp_def getProp_def fieldNames_own split: option.splits)

lemma hasProp_own: "map_of errors fieldName \<noteq> None \<Longrightarrow> hasProp fieldName errors"
  by (auto simp: hasProp_def getProp_def split: option.splits)

text \<open>
  Claim C9. The status of a field follows a fixed precedence. A field with an entry in
  the form errors has status \<open>error\<close>, whatever its completion and required-ness. For
  a field of the form without such an entry: required and not completed gives
  \<open>required\<close>; completed gives \<open>completed\<close>; neither required nor completed gives
  \<open>default\<close>. The function is total and the four statuses are distinct values, so
  every combination has exactly one status.
\<close>

theorem getFieldStatus_precedence:
  "(map_of errors fieldName \<noteq> None \<longrightarrow>
      getFieldStatus errors completed d fieldName = StatusError) \<and>
   (fieldName \<in> set fieldNames \<and> map_of errors fieldName = None \<longrightarrow>
      (isFieldRequired d fieldName \<and> fieldName \<notin> completed \<longrightarrow>
         getFieldStatus errors completed d fieldName = StatusRequired) \<and>
      (fieldName \<in> completed \<longrightarrow>
         getFieldStatus errors completed d fieldName = StatusCompleted) \<and>
      (\<not> isFieldRequired d fieldName \<and> fieldName \<notin> completed \<longrightarrow>
         getFieldStatus errors completed d fieldName = StatusDefault))"
proof -
  have "getFieldStatus errors completed d fieldName = StatusError"
    if "map_of errors fieldName \<noteq> None"
    using hasProp_own [OF that] by (simp add: getFieldStatus_def)
  moreover have "\<not> hasProp fieldName errors"
    if "fieldName \<in> set fieldNames" "map_of errors fieldName = None"
    using that by (simp add: hasProp_field)
  ultimately show ?thesis
    by (auto simp: getFieldStatus_def Let_def)
qed

theorem getFieldStatus_witness:
  "getFieldStatus [(''baseUrl'', ''Must be a valid URL'')] {''baseUrl''} noInitialData ''baseUrl''
     = StatusError \<and>
   getFieldStatus [] {} noInitialData ''campaignType'' = StatusRequired \<and>
   getFieldStatus [] {''anchorTag''} noInitialData ''anchorTag'' = StatusCompleted \<and>
   getFieldStatus [] {} noInitialData ''anchorTag'' = StatusDefault"
  using getFieldStatus_precedence
      [of "[(''baseUrl'', ''Must be a valid URL'')]" "''baseUrl''" "{''baseUrl''}" noInitialData]
    getFieldStatus_precedence [of "[]" "''campaignType''" "{}" noInitialData]
    getFieldStatus_precedence [of "[]" "''anchorTag''" "{''anchorTag''}" noInitialData]
    getFieldStatus_precedence [of "[]" "''anchorTag''" "{}" noInitialData]
  by (simp add: fieldNames_def isFieldRequired_def baseRequiredFields_def)

section \<open>Completed fields\<close>




section \<open>The ad-type resolver on keys outside the table\<close>

lemma getProp_own:
  "k \<notin> set objectPrototypeKeys \<Longrightarrow>
   getProp obj k = (case map_of obj k of Some v \<Rightarrow> Own v | None \<Rightarrow> Absent)"
  by (simp add: getProp_def)

lemma adTypes_keys_are_sources:
  "map_of campaignHierarchy t = Some td \<Longrightarrow> set (map fst (adTypes td)) = set (sources td)"
  by (auto simp: campaignHierarchy_def split: if_splits)

text \<open>
  Away from the twelve inherited names the resolver does what the table says: a source
  that is not offered for the campaign type has no ad types.
\<close>

lemma filteredAdTypes_empty:
  assumes "campaignType' \<notin> set objectPrototypeKeys" "campaignSource' \<notin> set objectPrototypeKeys"
    and "campaignSource' \<notin> options (filteredCampaignSources campaignType')"
  shows "filteredAdTypes campaignType' campaignSource' = Inr []"
proof (cases "map_of campaignHierarchy campaignType'")
  case None
  then show ?thesis
    using assms(1) by (simp add: filteredAdTypes_def hasProp_def getProp_own)
next
  case (Some td)
  show ?thesis
  proof (cases "campaignType' = []")
    case True
    then show ?thesis by (simp add: filteredAdTypes_def)
  next
    case False
    with Some assms(1,3) have "campaignSource' \<notin> set (sources td)"
      by (simp add: filteredCampaignSources_def hasProp_def getProp_own)
    then have "campaignSource' \<notin> set (map fst (adTypes td))"
      using adTypes_keys_are_sources [OF Some] by simp
    then have "map_of (adTypes td) campaignSource' = None"
      by (simp add: map_of_eq_None_iff)
    with Some assms(1,2) show ?thesis
      by (simp add: filteredAdTypes_def hasProp_def getProp_own)
  qed
qed

lemma filteredAdTypes_inherited_type:
  "filteredCampaignSources ''constructor'' = Inl TypeError \<and>
   filteredAdTypes ''constructor'' ''Google'' = Inl TypeError"
  by (simp add: filteredCampaignSources_def filteredAdTypes_def hasProp_def getProp_def
        campaignHierarchy_def objectPrototypeKeys_def)

text \<open>
  Claim C5. The claim asks for the empty list, and no exception, whenever the source is
  not one of the sources of the campaign type. For the campaign type \<open>Display Ads\<close>
  and the source \<open>toString\<close>, which is not among its sources, the guard
  \<open>campaignSource in typeData.adTypes\<close> holds through the prototype, the lookup
  yields a function, and spreading it throws.
\<close>

theorem filteredAdTypes_inherited_key:
  "''toString'' \<notin> options (filteredCampaignSources ''Display Ads'') \<and>
   filteredAdTypes ''Display Ads'' ''toString'' = Inl TypeError"
  by (simp add: filteredCampaignSources_def filteredAdTypes_def hasProp_def getProp_def
        campaignHierarchy_def objectPrototypeKeys_def)

section \<open>Creating partners and third parties\<close>

lemma trim_Nil: "trim [] = []"
  by (simp add: trim_def)

lemma trim_spaces: "trim ''   '' = []"
  by (simp add: trim_def isWhiteSpace_def)

text \<open>
  Claim C1. When the name typed into the modal is empty after trimming, adding a
  partner or a third party ends with the error toast: no request is sent and the
  database is unchanged.
\<close>

theorem blank_name_not_sent:
  assumes "trim newName = []"
  shows "handleAddPartner newId now message newName s =
           (Toast ''Error'' ''Partner name is required'', [], s) \<and>
         handleAddThirdParty newId now message newName s =
           (Toast ''Error'' ''Third party name is required'', [], s)"
  using assms by (simp add: handleAddPartner_def handleAddThirdParty_def)

theorem blank_name_witness:
  "trim ''   '' = [] \<and>
   handleAddPartner ''id1'' 0 (\<lambda>e. ''failed'') ''   '' \<lparr>partners = [], thirdParties = []\<rparr> =
     (Toast ''Error'' ''Partner name is required'', [], \<lparr>partners = [], thirdParties = []\<rparr>) \<and>
   handleAddThirdParty ''id1'' 0 (\<lambda>e. ''failed'') ''   '' \<lparr>partners = [], thirdParties = []\<rparr> =
     (Toast ''Error'' ''Third party name is required'', [],
      \<lparr>partners = [], thirdParties = []\<rparr>)"
  using blank_name_not_sent
      [OF trim_spaces, of "''id1''" 0 "\<lambda>e. ''failed''" "\<lparr>partners = [], thirdParties = []\<rparr>"]
    trim_spaces
  by simp

text \<open>
  The check is the modal's alone. The route takes any string as a name: posted
  directly, a blank name is inserted.
\<close>

lemma postPartners_blank:
  "postPartners ''id1'' 0 message [(''name'', Str ''   '')] \<lparr>partners = [], thirdParties = []\<rparr> =
     (Response 201
        (PartnerJson \<lparr>name = ''   '', description = None, rowId = ''id1'', createdAt = 0,
           updatedAt = 0\<rparr>),
      \<lparr>partners = [\<lparr>name = ''   '', description = None, rowId = ''id1'', createdAt = 0,
           updatedAt = 0\<rparr>],
       thirdParties = []\<rparr>)"
  by (simp add: postPartners_def insertPartnerSchema_def checkPartnerExists_def
        createPartner_def insertReturning_def Let_def)

lemma checkPartnerExists_iff: "checkPartnerExists s n \<longleftrightarrow> n \<in> set (map name (partners s))"
  by (auto simp: checkPartnerExists_def filter_empty_conv)

lemma postPartners_created:
  assumes "insertPartnerSchema body = Inr partnerData"
    and "postPartners newId now message body s = (Response 201 j, s')"
  shows "\<not> checkPartnerExists s (name partnerData) \<and>
         (\<exists>created. name created = name partnerData \<and> partners s' = partners s @ [created])"
  using assms
  by (auto simp: postPartners_def createPartner_def insertReturning_def Let_def
      split: if_splits sum.splits prod.splits)

text \<open>
  Claim C2. After \<open>POST /api/partners\<close> has answered 201 for a body with some name,
  \<open>checkPartnerExists\<close> of that name is true, a second post of a body with the same
  name is answered 409 and leaves the database as it is, and the table holds exactly
  one partner of that name.
\<close>

theorem create_then_exists:
  assumes "insertPartnerSchema body = Inr partnerData"
    and "postPartners newId now message body s = (Response 201 j, s')"
    and "insertPartnerSchema body' = Inr partnerData'"
    and "name partnerData' = name partnerData"
  shows "checkPartnerExists s' (name partnerData) \<and>
         postPartners newId' now' message' body' s' =
           (Response 409 (ErrorJson ''Partner name already exists''), s') \<and>
         length (filter (\<lambda>r. name r = name partnerData) (partners s')) = 1"
proof -
  from postPartners_created [OF assms(1,2)] obtain created where
    new: "\<not> checkPartnerExists s (name partnerData)" and
    c: "name created = name partnerData" "partners s' = partners s @ [created]"
    by blast
  from new have "filter (\<lambda>r. name r = name partnerData) (partners s) = []"
    by (simp add: checkPartnerExists_def)
  with c have one: "length (filter (\<lambda>r. name r = name partnerData) (partners s')) = 1"
    by simp
  from c have ex: "checkPartnerExists s' (name partnerData)"
    by (simp add: checkPartnerExists_iff)
  with assms(3,4) have "postPartners newId' now' message' body' s' =
      (Response 409 (ErrorJson ''Partner name already exists''), s')"
    by (simp add: postPartners_def)
  with ex one show ?thesis by simp
qed

lemma acme_body:
  "insertPartnerSchema [(''name'', Str ''Acme'')] = Inr \<lparr>name = ''Acme'', description = None\<rparr>"
  by (simp add: insertPartnerSchema_def)

lemma acme_created:
  "postPartners ''id1'' 0 (\<lambda>e. ''failed'') [(''name'', Str ''Acme'')]
       \<lparr>partners = [], thirdParties = []\<rparr> =
     (Response 201
        (PartnerJson \<lparr>name = ''Acme'', description = None, rowId = ''id1'', createdAt = 0,
           updatedAt = 0\<rparr>),
      \<lparr>partners = [\<lparr>name = ''Acme'', description = None, rowId = ''id1'', createdAt = 0,
           updatedAt = 0\<rparr>],
       thirdParties = []\<rparr>)"
  by (simp add: postPartners_def insertPartnerSchema_def checkPartnerExists_def
        createPartner_def insertReturning_def Let_def)

theorem create_then_exists_witness:
  "postPartners ''id1'' 0 (\<lambda>e. ''failed'') [(''name'', Str ''Acme'')]
       \<lparr>partners = [], thirdParties = []\<rparr> =
     (Response 201
        (PartnerJson \<lparr>name = ''Acme'', description = None, rowId = ''id1'', createdAt = 0,
           updatedAt = 0\<rparr>),
      \<lparr>partners = [\<lparr>name = ''Acme'', description = None, rowId = ''id1'', createdAt = 0,
           updatedAt = 0\<rparr>],
       thirdParties = []\<rparr>) \<and>
   checkPartnerExists
     \<lparr>partners = [\<lparr>name = ''Acme'', description = None, rowId = ''id1'', createdAt = 0,
          updatedAt = 0\<rparr>],
      thirdParties = []\<rparr> ''Acme'' \<and>
   postPartners ''id2'' 1 (\<lambda>e. ''failed'') [(''name'', Str ''Acme'')]
       \<lparr>partners = [\<lparr>name = ''Acme'', description = None, rowId = ''id1'', createdAt = 0,
            updatedAt = 0\<rparr>],
        thirdParties = []\<rparr> =
     (Response 409 (ErrorJson ''Partner name already exists''),
      \<lparr>partners = [\<lparr>name = ''Acme'', description = None, rowId = ''id1'', createdAt = 0,
           updatedAt = 0\<rparr>],
       thirdParties = []\<rparr>)"
  using create_then_exists
      [OF acme_body acme_created acme_body refl, of "''id2''" 1 "\<lambda>e. ''failed''"]
    acme_created
  by simp

text \<open>
  Through the modal the name that is posted and stored is the trimmed one, and the
  existence check compares names exactly.
\<close>

lemma handleAddPartner_created:
  assumes "handleAddPartner newId now message newPartnerName s = (Answer (Response 201 j), sent, s')"
  shows "checkPartnerExists s' (trim newPartnerName)"
proof -
  let ?body = "[(''name'', Str (trim newPartnerName))]"
  let ?data = "\<lparr>name = trim newPartnerName, description = None\<rparr>"
  from assms have post: "postPartners newId now message ?body s = (Response 201 j, s')"
    by (auto simp: handleAddPartner_def Let_def split: if_splits prod.splits)
  have parse: "insertPartnerSchema ?body = Inr ?data"
    by (simp add: insertPartnerSchema_def)
  from postPartners_created [OF parse post] obtain created where
    "name created = trim newPartnerName" "partners s' = partners s @ [created]"
    by auto
  then show ?thesis
    by (simp add: checkPartnerExists_iff)
qed

lemma modal_stores_trimmed_name:
  "checkPartnerExists
     (snd (snd (handleAddPartner ''id1'' 0 message '' Acme '' \<lparr>partners = [], thirdParties = []\<rparr>)))
     ''Acme'' \<and>
   \<not> checkPartnerExists
     (snd (snd (handleAddPartner ''id1'' 0 message '' Acme '' \<lparr>partners = [], thirdParties = []\<rparr>)))
     '' Acme ''"
  by (simp add: handleAddPartner_def postPartners_def insertPartnerSchema_def
        checkPartnerExists_def createPartner_def insertReturning_def Let_def trim_def
        isWhiteSpace_def)

section \<open>Validation of a draft\<close>

lemma validDraft_passes: "campaignFormSchema ((=) ''https://example.com'') validDraft = []"
  by (simp add: campaignFormSchema_def objectIssues_def min1_def refinement_def validDraft_def)

text \<open>
  Claim C7 as stated fails: a cost center of one space is non-empty, but the refinement
  trims it first and then asks nothing of the sub ledger, so the draft passes.
\<close>

theorem blank_costCenter_counterexample:
  "costCenter (validDraft\<lparr>costCenter := Some '' ''\<rparr>) = Some '' '' \<and> '' '' \<noteq> [] \<and>
   subLedger (validDraft\<lparr>costCenter := Some '' ''\<rparr>) = Some [] \<and>
   campaignFormSchema ((=) ''https://example.com'') (validDraft\<lparr>costCenter := Some '' ''\<rparr>) = []"
  by (simp add: campaignFormSchema_def objectIssues_def min1_def refinement_def validDraft_def
        trim_def isWhiteSpace_def)

text \<open>
  Without a start date the object is invalid before the refinement is called: the
  only issue is the start date's.
\<close>

lemma missing_startDate_skips_refinement:
  "campaignFormSchema ((=) ''https://example.com'')
     (validDraft\<lparr>costCenter := Some ''Engineering'', startDate := None\<rparr>) =
     [(''startDate'', ''Start date is required'')]"
  by (simp add: campaignFormSchema_def objectIssues_def min1_def refinement_def validDraft_def)

text \<open>
  Claim C7, amended. For every draft whose cost center is non-empty after trimming
  and whose sub ledger is missing, empty or white space, validation fails and nothing
  is submitted; when the draft has a start date, the issue of the refinement is
  attached to \<open>subLedger\<close>.
\<close>

theorem subLedger_violation:
  assumes "costCenter d = Some c" and "trim c \<noteq> []"
    and "subLedger d = None \<or> (\<exists>s. subLedger d = Some s \<and> trim s = [])"
  shows "campaignFormSchema isUrl d \<noteq> [] \<and>
         (\<exists>issues. handleSubmit isUrl d = Inl issues) \<and>
         (startDate d \<noteq> None \<longrightarrow>
            (''subLedger'', ''Sub Ledger is required when Cost Center is selected'')
              \<in> set (campaignFormSchema isUrl d))"
proof -
  from assms(2) have "c \<noteq> []"
    using trim_Nil by auto
  with assms(1,2) have cc: "nonBlank (costCenter d)"
    by simp
  from assms(3) have sl: "\<not> nonBlank (subLedger d)"
    by auto
  from cc sl have r: "\<not> refinement d"
    by (simp add: refinement_def)
  have issue: "(''subLedger'', ''Sub Ledger is required when Cost Center is selected'')
      \<in> set (campaignFormSchema isUrl d)" if "startDate d \<noteq> None"
    using that r by (auto simp: campaignFormSchema_def)
  have fails: "campaignFormSchema isUrl d \<noteq> []"
  proof (cases "startDate d")
    case None
    then show ?thesis
      by (simp add: campaignFormSchema_def objectIssues_def)
  next
    case (Some t)
    then show ?thesis
      using issue by auto
  qed
  then have "\<exists>issues. handleSubmit isUrl d = Inl issues"
    by (cases "campaignFormSchema isUrl d") (simp_all add: handleSubmit_def)
  with fails issue show ?thesis
    by blast
qed

theorem subLedger_violation_witness:
  "costCenter (validDraft\<lparr>costCenter := Some ''Engineering''\<rparr>) = Some ''Engineering'' \<and>
   trim ''Engineering'' \<noteq> [] \<and>
   subLedger (validDraft\<lparr>costCenter := Some ''Engineering''\<rparr>) = Some [] \<and>
   startDate (validDraft\<lparr>costCenter := Some ''Engineering''\<rparr>) \<noteq> None \<and>
   campaignFormSchema ((=) ''https://example.com'')
     (validDraft\<lparr>costCenter := Some ''Engineering''\<rparr>) =
     [(''subLedger'', ''Sub Ledger is required when Cost Center is selected'')]"
  using subLedger_violation
      [of "validDraft\<lparr>costCenter := Some ''Engineering''\<rparr>" "''Engineering''"
        "(=) ''https://example.com''"]
  by (simp add: campaignFormSchema_def objectIssues_def min1_def refinement_def validDraft_def
        trim_def isWhiteSpace_def)

section \<open>Partner and third-party names\<close>


text \<open>The same draft with \<open>partnering\<close> true and no partner name.\<close>

lemma partnerName_not_enforced:
  "\<not> isFieldRequired (validDraft\<lparr>partnering := True\<rparr>) ''partnerName'' \<and>
   campaignFormSchema ((=) ''https://example.com'') (validDraft\<lparr>partnering := True\<rparr>) = []"
  by (simp add: campaignFormSchema_def objectIssues_def min1_def refinement_def validDraft_def
        isFieldRequired_def baseRequiredFields_def)




section \<open>The form at rest\<close>

lemmas fires_defs = firesCampaignType_def firesCampaignSource_def firesAdType_def
  firesCostCenter_def

lemma fires_commit:
  "firesCampaignType (commit f) = False"
  "firesCostCenter (commit f) = False"
  "firesCampaignSource (commit f) = (firesCampaignType f \<and> campaignSource f \<noteq> [])"
  "firesAdType (commit f) = ((firesCampaignType f \<or> firesCampaignSource f) \<and> adType f \<noteq> [])"
  by (auto simp: fires_defs commit_sel)

lemma children_commit_commit: "children (commit (commit f)) = children (commit f)"
  by (auto simp: children_def commit_sel fires_commit)

lemma effect_idle:
  "prevCampaignType f = Some v \<Longrightarrow> effectCampaignType v f = f"
  "prevCampaignSource f = Some v \<Longrightarrow> effectCampaignSource v f = f"
  "prevAdType f = Some v \<Longrightarrow> effectAdType v f = f"
  "prevCostCenter f = orNull c \<Longrightarrow> effectCostCenter c f = f"
  by (simp_all add: effectCampaignType_def effectCampaignSource_def effectAdType_def
        effectCostCenter_def)

lemma commit_idle: "atRest f \<Longrightarrow> commit f = f"
  by (simp add: atRest_def commit_def effect_idle)

lemma commit_commit_idle:
  assumes "children (commit f) = children f"
  shows "commit (commit f) = commit f"
proof (rule commit_idle)
  from assms have "campaignSource (commit f) = campaignSource f" "adType (commit f) = adType f"
    by (simp_all add: children_def)
  then show "atRest (commit f)"
    by (simp add: atRest_def commit_sel(1,2,7-10))
qed

text \<open>The second render never changes a value: the form is at rest after two.\<close>

lemma settle_commit: "settle f = commit (commit f)"
proof (cases "children (commit f) = children f")
  case True
  then show ?thesis
    by (simp add: settle.simps [of f] commit_commit_idle)
next
  case False
  then have "settle f = settle (commit f)"
    by (simp add: settle.simps [of f])
  also have "\<dots> = commit (commit f)"
    by (simp add: settle.simps [of "commit f"] children_commit_commit)
  finally show ?thesis .
qed

lemma settle_sel:
  "campaignType (settle f) = campaignType f"
  "costCenter (settle f) = costCenter f"
  "campaignSource (settle f) = (if firesCampaignType f then [] else campaignSource f)"
  "adType (settle f) = (if firesCampaignType f \<or> firesCampaignSource f then [] else adType f)"
  "adTypeDetail (settle f) =
     (if firesCampaignType f \<or> firesCampaignSource f \<or> firesAdType f then Some []
      else adTypeDetail f)"
  "subLedger (settle f) = (if firesCostCenter f then Some [] else subLedger f)"
  by (auto simp: settle_commit commit_sel fires_commit)

lemma atRest_settle: "atRest (settle f)"
  by (simp add: atRest_def settle_commit commit_sel fires_commit)

lemma settle_idle: "atRest f \<Longrightarrow> settle f = f"
  by (simp add: settle_commit commit_idle)

lemma change_atRest: "atRest (change e f)"
  by (simp add: change_def atRest_settle)

lemma mount_atRest: "atRest (mount d)"
  by (simp add: mount_def atRest_settle)


lemma mount_sel:
  "campaignType (mount d) = campaignType d"
  "campaignSource (mount d) = campaignSource d"
  "adType (mount d) = adType d"
  "adTypeDetail (mount d) = adTypeDetail d"
  "costCenter (mount d) = costCenter d"
  "subLedger (mount d) = subLedger d"
  by (simp_all add: mount_def settle_sel fires_defs CampaignFormData.defs)

section \<open>Cascading resets\<close>








text \<open>
  The cell of the cost center stays \<open>null\<close> while the cost center is empty, so the
  first choice of a cost center resets nothing: a sub ledger that a draft brought
  without a cost center survives it.
\<close>

lemma first_costCenter_keeps_subLedger:
  "prevCostCenter (mount (noInitialData\<lparr>subLedger := Some ''Sales Support''\<rparr>)) = None \<and>
   subLedger (change (SetCostCenter ''Engineering'')
     (mount (noInitialData\<lparr>subLedger := Some ''Sales Support''\<rparr>))) = Some ''Sales Support''"
  by code_simp

section \<open>The hierarchy invariant under changes\<close>

text \<open>
  Claim C3 as stated fails in the form's first state: with nothing selected the campaign
  source is empty, and the empty string is not one of the sources of the empty
  campaign type, which has none. With empty children allowed it still fails for a
  draft that brings a source its campaign type does not have: mounting checks nothing
  and resets nothing.
\<close>

theorem hierarchy_counterexample:
  "\<not> hierarchyInvariant (mount noInitialData) \<and>
   \<not> emptyOrValid
      (mount (noInitialData\<lparr>campaignType := ''Display Ads'',
                campaignSource := ''Email Newsletter''\<rparr>))"
  by (simp add: hierarchyInvariant_def emptyOrValid_def mount_sel noInitialData_def
        filteredCampaignSources_def hasProp_def getProp_def campaignHierarchy_def
        objectPrototypeKeys_def)

lemma no_subLedgers: "\<not> truthy c \<Longrightarrow> options (filteredSubLedgers c) = {}"
  by (cases c) (simp_all add: filteredSubLedgers_def)

lemma memberOpt_empty: "\<not> memberOpt x {}"
  by (cases x) simp_all

lemma keep_campaignType:
  assumes "atRest f" "emptyOrValid f"
  shows "emptyOrValid (change (SetCampaignType v) f)"
proof (cases "v = campaignType f")
  case True
  with assms(1) have "change (SetCampaignType v) f = f"
    by (simp add: change_def settle_idle)
  with assms(2) show ?thesis by simp
next
  case False
  with assms show ?thesis
    by (simp add: emptyOrValid_def change_def settle_sel fires_defs atRest_def)
qed

lemma keep_campaignSource:
  assumes "atRest f" "emptyOrValid f" "offered f (SetCampaignSource v)"
  shows "emptyOrValid (change (SetCampaignSource v) f)"
proof (cases "v = campaignSource f")
  case True
  with assms(1) have "change (SetCampaignSource v) f = f"
    by (simp add: change_def settle_idle)
  with assms(2) show ?thesis by simp
next
  case False
  with assms show ?thesis
    by (simp add: emptyOrValid_def change_def settle_sel fires_defs atRest_def)
qed

lemma keep_adType:
  assumes "atRest f" "emptyOrValid f" "offered f (SetAdType v)"
  shows "emptyOrValid (change (SetAdType v) f)"
proof (cases "v = adType f")
  case True
  with assms(1) have "change (SetAdType v) f = f"
    by (simp add: change_def settle_idle)
  with assms(2) show ?thesis by simp
next
  case False
  with assms show ?thesis
    by (simp add: emptyOrValid_def change_def settle_sel fires_defs atRest_def)
qed

lemma keep_adTypeDetail:
  assumes "atRest f" "emptyOrValid f" "offered f (SetAdTypeDetail v)"
  shows "emptyOrValid (change (SetAdTypeDetail v) f)"
  using assms
  by (simp add: emptyOrValid_def change_def settle_sel fires_defs atRest_def)

lemma keep_subLedger:
  assumes "atRest f" "emptyOrValid f" "offered f (SetSubLedger v)"
  shows "emptyOrValid (change (SetSubLedger v) f)"
  using assms
  by (simp add: emptyOrValid_def change_def settle_sel fires_defs atRest_def)

lemma keep_costCenter:
  assumes "atRest f" "emptyOrValid f"
  shows "emptyOrValid (change (SetCostCenter v) f)"
proof (cases "truthy (costCenter f)")
  case False
  with assms(2) have "subLedger f = None \<or> subLedger f = Some []"
    by (simp add: emptyOrValid_def no_subLedgers memberOpt_empty)
  with assms show ?thesis
    by (auto simp: emptyOrValid_def change_def settle_sel fires_defs atRest_def)
next
  case True
  show ?thesis
  proof (cases "costCenter f = Some v")
    case True
    then have "f\<lparr>costCenter := Some v\<rparr> = f" by simp
    with assms(1) have "change (SetCostCenter v) f = f"
      by (simp add: change_def settle_idle del: CampaignFormData.update_convs)
    with assms(2) show ?thesis by simp
  next
    case False
    with \<open>truthy (costCenter f)\<close> assms(1) have "firesCostCenter (f\<lparr>costCenter := Some v\<rparr>)"
      by (cases "costCenter f") (auto simp: fires_defs atRest_def orNull_def)
    with assms show ?thesis
      by (simp add: emptyOrValid_def change_def settle_sel fires_defs atRest_def)
  qed
qed

lemma change_keeps:
  assumes "atRest f" "emptyOrValid f" "offered f e"
  shows "emptyOrValid (change e f)"
  using assms
  by (cases e)
    (simp_all only: keep_campaignType keep_campaignSource keep_adType keep_adTypeDetail
       keep_costCenter keep_subLedger)

lemma changes_keep:
  "atRest f \<Longrightarrow> emptyOrValid f \<Longrightarrow> allOffered es f \<Longrightarrow> emptyOrValid (changes es f)"
proof (induction es arbitrary: f)
  case Nil
  then show ?case by simp
next
  case (Cons e es)
  from Cons.prems have "emptyOrValid (change e f)" "allOffered es (change e f)"
    by (simp_all add: change_keeps)
  with Cons.IH [OF change_atRest] show ?case by simp
qed

lemma emptyOrValid_mount: "emptyOrValid (mount d) = emptyOrValid d"
  by (simp add: emptyOrValid_def mount_sel)

text \<open>
  Claim C3, amended. Take a draft in which every child is empty or a member of the set
  its parents allow, mount it, and commit any sequence of changes that each pick an
  item the dropdown offers at that moment. Then in the state reached every child is
  again empty or a member of the set its parents allow: the campaign source among the
  sources of the campaign type, the ad type among the ad types of type and source,
  the detail among the details of type and ad type, the sub ledger among the sub
  ledgers of the cost center.
\<close>

theorem hierarchy_kept:
  assumes "emptyOrValid d" and "allOffered es (mount d)"
  shows "emptyOrValid (changes es (mount d))"
  using assms by (simp add: changes_keep mount_atRest emptyOrValid_mount)

lemma empty_form_valid: "emptyOrValid noInitialData"
  by (simp add: emptyOrValid_def noInitialData_def)

lemma seven_changes_offered:
  "allOffered
     [SetCampaignType ''Display Ads'', SetCampaignSource ''Google'', SetAdType ''Banner'',
      SetAdTypeDetail ''Rich Media'', SetCostCenter ''Engineering'',
      SetSubLedger ''Engineering R&D'', SetCampaignType ''Email Campaign'']
     (mount noInitialData)"
  by code_simp

theorem hierarchy_kept_witness:
  "emptyOrValid noInitialData \<and>
   allOffered
     [SetCampaignType ''Display Ads'', SetCampaignSource ''Google'', SetAdType ''Banner'',
      SetAdTypeDetail ''Rich Media'', SetCostCenter ''Engineering'',
      SetSubLedger ''Engineering R&D'', SetCampaignType ''Email Campaign'']
     (mount noInitialData) \<and>
   emptyOrValid
     (changes
        [SetCampaignType ''Display Ads'', SetCampaignSource ''Google'', SetAdType ''Banner'',
         SetAdTypeDetail ''Rich Media'', SetCostCenter ''Engineering'',
         SetSubLedger ''Engineering R&D'', SetCampaignType ''Email Campaign'']
        (mount noInitialData))"
  using hierarchy_kept [OF empty_form_valid seven_changes_offered] empty_form_valid
    seven_changes_offered
  by simp

end
